theory Spec2Isabelle
  imports Main
begin

section \<open>JavaScript values and the operators the client applies to them\<close>

text \<open>
  The client is dynamically typed at run time: the transport's result is cast to
  \<^verbatim>\<open>any\<close>, and every parsed body is an arbitrary JSON value. Values are therefore
  modelled by one datatype. An object is an association list; the first binding of a
  key is the property the object holds. Numbers are the integer-valued ones: the
  source only copies a number or tests it for truthiness.
\<close>

datatype jsval =
    JUndefined
  | JNull
  | JBool bool
  | JNum int
  | JStr string
  | JArr "jsval list"
  | JObj "(string \<times> jsval) list"

text \<open>
  A call either completes with a value or throws (an \<^verbatim>\<open>await\<close>ed promise either
  resolves or rejects). The thrown value is dropped: the only handler of the source,
  \<^verbatim>\<open>catch (error)\<close>, never reads it.
\<close>

datatype 'a completion = Throw | Normal 'a

text \<open>\<^verbatim>\<open>!data\<close>: the falsy values.\<close>

fun falsy :: "jsval \<Rightarrow> bool" where
  "falsy JUndefined = True"
| "falsy JNull = True"
| "falsy (JBool b) = (\<not> b)"
| "falsy (JNum n) = (n = 0)"
| "falsy (JStr s) = (s = [])"
| "falsy (JArr xs) = False"
| "falsy (JObj kvs) = False"

text \<open>The values on which \<^verbatim>\<open>?.\<close> short-circuits and a property read throws.\<close>

fun nullish :: "jsval \<Rightarrow> bool" where
  "nullish JUndefined = True"
| "nullish JNull = True"
| "nullish v = False"

text \<open>
  The property read \<^verbatim>\<open>v.k\<close>, for a name \<open>k\<close> that no prototype defines (the source
  reads \<^verbatim>\<open>detail\<close>, \<^verbatim>\<open>msg\<close> and \<^verbatim>\<open>flags\<close>): a TypeError on
  \<^verbatim>\<open>undefined\<close> and \<^verbatim>\<open>null\<close>, the own property of an object, and
  \<^verbatim>\<open>undefined\<close> for a missing property and for every other value.
\<close>

fun js_get :: "jsval \<Rightarrow> string \<Rightarrow> jsval completion" where
  "js_get JUndefined k = Throw"
| "js_get JNull k = Throw"
| "js_get (JObj kvs) k = Normal (case map_of kvs k of None \<Rightarrow> JUndefined | Some x \<Rightarrow> x)"
| "js_get v k = Normal JUndefined"

text \<open>
  The test \<^verbatim>\<open>k in v\<close>, again for a name that no prototype defines and that is no
  array index (the source tests \<^verbatim>\<open>"error"\<close>): a TypeError unless \<open>v\<close> is an object
  or an array.
\<close>

fun js_in :: "string \<Rightarrow> jsval \<Rightarrow> bool completion" where
  "js_in k (JObj kvs) = Normal (k \<in> set (map fst kvs))"
| "js_in k (JArr xs) = Normal False"
| "js_in k v = Throw"

section \<open>The transport\<close>

text \<open>
  The client built by \<^verbatim>\<open>createClient\<close> is an external collaborator, injected through
  the constructor's \<^verbatim>\<open>fetch\<close>. Only what the dispatcher reads of its result is
  represented: \<^verbatim>\<open>res.response.ok\<close>, \<^verbatim>\<open>res.response.status\<close>, the outcome of
  the one call \<^verbatim>\<open>res.response.json()\<close>, and \<^verbatim>\<open>res.error\<close>. The dispatcher
  reads \<^verbatim>\<open>ok\<close> and \<^verbatim>\<open>status\<close> separately, so they are separate fields: a
  failure response is one whose \<^verbatim>\<open>ok\<close> is false.
\<close>

record response =
  ok :: bool
  status :: int
  json :: "jsval completion"

record fetch_result =
  response :: response
  error :: jsval

datatype http_verb = GET | POST | PUT | DELETE

type_synonym transport = "string \<Rightarrow> jsval \<Rightarrow> fetch_result completion"

record client =
  raw_GET :: transport
  raw_POST :: transport
  raw_PUT :: transport
  raw_DELETE :: transport

text \<open>The lookup table \<^verbatim>\<open>methods\<close> of \<^verbatim>\<open>fetchApi\<close>, indexed by the verb.\<close>

fun methods :: "client \<Rightarrow> http_verb \<Rightarrow> transport" where
  "methods raw GET = raw_GET raw"
| "methods raw POST = raw_POST raw"
| "methods raw PUT = raw_PUT raw"
| "methods raw DELETE = raw_DELETE raw"

section \<open>The dispatcher \<^verbatim>\<open>fetchApi\<close>\<close>

text \<open>
  \<^verbatim>\<open>detail.map((d: any) => d.msg)\<close> on the elements of an array, left to right: the
  callback throws on an element that is \<^verbatim>\<open>undefined\<close> or \<^verbatim>\<open>null\<close>.
\<close>

fun map_msg :: "jsval list \<Rightarrow> jsval list completion" where
  "map_msg [] = Normal []"
| "map_msg (d # ds) =
     (case js_get d ''msg'' of
        Throw \<Rightarrow> Throw
      | Normal m \<Rightarrow> (case map_msg ds of Throw \<Rightarrow> Throw | Normal ms \<Rightarrow> Normal (m # ms)))"

text \<open>
  \<^verbatim>\<open>res.error?.detail?.map((d: any) => d.msg)\<close>. Each \<^verbatim>\<open>?.\<close> ends the whole chain
  with \<^verbatim>\<open>undefined\<close> on a nullish value. A \<^verbatim>\<open>detail\<close> that is not nullish and not an
  array has no callable \<^verbatim>\<open>map\<close> (a JSON value is never a function), so the call throws.
\<close>

definition detail_msgs :: "jsval \<Rightarrow> jsval completion" where
  "detail_msgs e =
     (if nullish e then Normal JUndefined
      else case js_get e ''detail'' of
        Throw \<Rightarrow> Throw
      | Normal detail \<Rightarrow>
          if nullish detail then Normal JUndefined
          else (case detail of
                  JArr ds \<Rightarrow> (case map_msg ds of Throw \<Rightarrow> Throw | Normal ms \<Rightarrow> Normal (JArr ms))
                | _ \<Rightarrow> Throw))"

text \<open>The body of the \<^verbatim>\<open>try\<close> block (lines 73 to 109).\<close>

definition fetchApi_try :: "client \<Rightarrow> http_verb \<Rightarrow> string \<Rightarrow> jsval \<Rightarrow> jsval completion" where
  "fetchApi_try raw m path options =
     (case methods raw m path options of
        Throw \<Rightarrow> Throw
      | Normal res \<Rightarrow>
          if \<not> ok (response res) then
            (if status (response res) = 422 then
               (case detail_msgs (error res) of
                  Throw \<Rightarrow> Throw
                | Normal details \<Rightarrow>
                    Normal (JObj [(''error'', JObj [(''statusCode'', JNum 422),
                                                    (''message'', JStr ''Validation error''),
                                                    (''details'', details)])]))
             else
               (case json (response res) of
                  Throw \<Rightarrow> Throw
                | Normal errorDetails \<Rightarrow>
                    Normal (JObj [(''error'', JObj [(''statusCode'', JNum (status (response res))),
                                                    (''message'', JStr ''Error while requesting Nutripatrol API''),
                                                    (''details'', errorDetails)])])))
          else
            (case json (response res) of
               Throw \<Rightarrow> Throw
             | Normal data \<Rightarrow>
                 if falsy data then
                   Normal (JObj [(''error'', JObj [(''statusCode'', JNum 500),
                                                   (''message'', JStr ''Malformed API response'')])])
                 else Normal data))"

text \<open>The \<^verbatim>\<open>try\<close> block under its \<^verbatim>\<open>catch\<close> (lines 72 to 117).\<close>

definition fetchApi :: "client \<Rightarrow> http_verb \<Rightarrow> string \<Rightarrow> jsval \<Rightarrow> jsval completion" where
  "fetchApi raw m path options =
     (case fetchApi_try raw m path options of
        Throw \<Rightarrow>
          Normal (JObj [(''error'', JObj [(''statusCode'', JNum 500),
                                          (''message'', JStr ''An unexpected error occurred'')])])
      | Normal v \<Rightarrow> Normal v)"

section \<open>The typed accessors\<close>

text \<open>
  Both accessors call the dispatcher without \<^verbatim>\<open>options\<close>, which then defaults to
  \<^verbatim>\<open>{}\<close>. The test \<^verbatim>\<open>"error" in data\<close> stands outside the dispatcher's
  \<^verbatim>\<open>try\<close>.
\<close>

definition getFlags :: "client \<Rightarrow> jsval completion" where
  "getFlags raw =
     (case fetchApi raw GET ''/api/v1/flags'' (JObj []) of
        Throw \<Rightarrow> Throw
      | Normal data \<Rightarrow>
          (case js_in ''error'' data of
             Throw \<Rightarrow> Throw
           | Normal b \<Rightarrow> if b then Normal data else js_get data ''flags''))"

definition getApiHealth :: "client \<Rightarrow> jsval completion" where
  "getApiHealth raw =
     (case fetchApi raw GET ''/health'' (JObj []) of
        Throw \<Rightarrow> Throw
      | Normal data \<Rightarrow>
          (case js_in ''error'' data of
             Throw \<Rightarrow> Throw
           | Normal b \<Rightarrow> if b then Normal data else Normal data))"

section \<open>The declared error type\<close>

text \<open>
  Conformance of a value to \<^verbatim>\<open>SearchALiciousError\<close> of \<^verbatim>\<open>error.ts\<close>: an object
  whose \<^verbatim>\<open>error\<close> property is an object with a number \<^verbatim>\<open>statusCode\<close> and a string
  \<^verbatim>\<open>message\<close>; \<^verbatim>\<open>details\<close> is optional and of any type.
\<close>

fun is_number :: "jsval option \<Rightarrow> bool" where
  "is_number (Some (JNum n)) = True"
| "is_number v = False"

fun is_string :: "jsval option \<Rightarrow> bool" where
  "is_string (Some (JStr s)) = True"
| "is_string v = False"

fun SearchALiciousError :: "jsval \<Rightarrow> bool" where
  "SearchALiciousError (JObj kvs) =
     (case map_of kvs ''error'' of
        Some (JObj e) \<Rightarrow> is_number (map_of e ''statusCode'') \<and> is_string (map_of e ''message'')
      | _ \<Rightarrow> False)"
| "SearchALiciousError v = False"

section \<open>Test doubles\<close>

text \<open>
  A client whose four transport functions all complete in the same way, whatever the
  path and the options: the test double the constructor's injection point is for.
\<close>

definition stub_client :: "fetch_result completion \<Rightarrow> client" where
  "stub_client r =
     \<lparr>raw_GET = (\<lambda>path options. r), raw_POST = (\<lambda>path options. r),
      raw_PUT = (\<lambda>path options. r), raw_DELETE = (\<lambda>path options. r)\<rparr>"

text \<open>A transport result with the given status line, parsed body and \<^verbatim>\<open>error\<close> field.\<close>

definition reply :: "bool \<Rightarrow> int \<Rightarrow> jsval completion \<Rightarrow> jsval \<Rightarrow> fetch_result" where
  "reply b s j e = \<lparr>response = \<lparr>ok = b, status = s, json = j\<rparr>, error = e\<rparr>"

text \<open>The bodies of the two scenarios of the flags route.\<close>

definition flags_body :: jsval where
  "flags_body = JObj [(''flags'', JArr [JObj [(''id'', JNum 1)]])]"

definition validation_body :: jsval where
  "validation_body =
     JObj [(''detail'', JArr [JObj [(''msg'', JStr ''bad id''),
                                   (''type'', JStr ''value_error''),
                                   (''loc'', JArr [JStr ''query'', JStr ''id''])]])]"

text \<open>A body of the health route.\<close>

definition health_body :: jsval where
  "health_body =
     JObj [(''hostname'', JStr ''nutripatrol''), (''status'', JStr ''success''),
           (''timestamp'', JNum 1700000000),
           (''results'', JArr [JObj [(''checker'', JStr ''db''), (''output'', JStr []),
                                    (''passed'', JBool True), (''timestamp'', JNum 1700000000),
                                    (''expires'', JNum 1700000027), (''response_time'', JNum 0)]])]"

section \<open>Auxiliary facts\<close>

lemma methods_stub_client: "methods (stub_client r) m path options = r"
  by (cases m) (simp_all add: stub_client_def)

lemma fetchApi_stub_ok:
  "fetchApi (stub_client (Normal (reply True s (Normal data) e))) m path options =
     (if falsy data
      then Normal (JObj [(''error'', JObj [(''statusCode'', JNum 500),
                                          (''message'', JStr ''Malformed API response'')])])
      else Normal data)"
  by (simp add: fetchApi_def fetchApi_try_def methods_stub_client reply_def)

lemma fetchApi_returns: "\<exists>v. fetchApi raw m path options = Normal v"
  by (simp add: fetchApi_def split: completion.split)

lemma map_msg_total:
  "list_all (\<lambda>d. \<not> nullish d) ds \<Longrightarrow>
   \<exists>ms. map_msg ds = Normal ms \<and> length ms = length ds \<and>
        (\<forall>i<length ds. js_get (ds ! i) ''msg'' = Normal (ms ! i))"
proof (induction ds)
  case Nil
  then show ?case by simp
next
  case (Cons d ds)
  then obtain ms where ms: "map_msg ds = Normal ms" "length ms = length ds"
    "\<forall>i<length ds. js_get (ds ! i) ''msg'' = Normal (ms ! i)" by auto
  from Cons.prems have "\<not> nullish d" by simp
  then obtain x where x: "js_get d ''msg'' = Normal x"
    by (cases d) auto
  show ?case
    using ms x by (auto simp: nth_Cons split: nat.splits)
qed

lemma detail_msgs_array:
  assumes "js_get e ''detail'' = Normal (JArr ds)"
  shows "detail_msgs e = (case map_msg ds of Throw \<Rightarrow> Throw | Normal ms \<Rightarrow> Normal (JArr ms))"
  using assms by (cases e) (simp_all add: detail_msgs_def)

lemma property_smaller: "(k, x) \<in> set kvs \<Longrightarrow> size x < size (JObj kvs)"
  by (induction kvs) auto

lemma js_get_not_self: "js_get (JObj kvs) k \<noteq> Normal (JObj kvs)"
proof (cases "map_of kvs k")
  case None
  then show ?thesis by simp
next
  case (Some x)
  then have "(k, x) \<in> set kvs" by (rule map_of_SomeD)
  then have "size x < size (JObj kvs)" by (rule property_smaller)
  then have "x \<noteq> JObj kvs" by auto
  with Some show ?thesis by simp
qed

section \<open>The transport throws\<close>

text \<open>
  C5. When the transport function selected for the verb throws or rejects, the
  dispatcher completes normally with exactly
  \<^verbatim>\<open>{error: {statusCode: 500, message: "An unexpected error occurred"}}\<close>: the inner
  object has these two properties and no \<^verbatim>\<open>details\<close>.
\<close>

theorem fetchApi_transport_throws:
  assumes "methods raw m path options = Throw"
  shows "fetchApi raw m path options =
           Normal (JObj [(''error'', JObj [(''statusCode'', JNum 500),
                                           (''message'', JStr ''An unexpected error occurred'')])])"
  using assms by (simp add: fetchApi_def fetchApi_try_def)

theorem fetchApi_transport_throws_witness:
  "methods (stub_client Throw) POST ''/api/v1/flags'' (JObj []) = Throw \<and>
   fetchApi (stub_client Throw) POST ''/api/v1/flags'' (JObj []) =
     Normal (JObj [(''error'', JObj [(''statusCode'', JNum 500),
                                     (''message'', JStr ''An unexpected error occurred'')])])"
proof -
  have h: "methods (stub_client Throw) POST ''/api/v1/flags'' (JObj []) = Throw"
    by (rule methods_stub_client)
  from fetchApi_transport_throws [OF h] h show ?thesis by (rule conjI [rotated])
qed

section \<open>Failure responses\<close>

text \<open>
  C3. When the response is a failure with status 422 and the error body holds under
  \<^verbatim>\<open>detail\<close> an array of \<open>N\<close> entries, none of them \<^verbatim>\<open>null\<close> or
  \<^verbatim>\<open>undefined\<close> (the declared \<^verbatim>\<open>ApiError\<close> makes every entry an object), the
  dispatcher returns the error with statusCode 422 and message "Validation error" whose
  \<^verbatim>\<open>details\<close> is an array of \<open>N\<close> elements, the \<open>i\<close>-th being the \<^verbatim>\<open>msg\<close>
  property of the \<open>i\<close>-th entry.
\<close>

theorem fetchApi_validation_error:
  assumes "methods raw m path options = Normal res"
    and "\<not> ok (response res)"
    and "status (response res) = 422"
    and "js_get (error res) ''detail'' = Normal (JArr ds)"
    and "list_all (\<lambda>d. \<not> nullish d) ds"
  shows "\<exists>ms. fetchApi raw m path options =
                Normal (JObj [(''error'', JObj [(''statusCode'', JNum 422),
                                                (''message'', JStr ''Validation error''),
                                                (''details'', JArr ms)])]) \<and>
              length ms = length ds \<and>
              (\<forall>i<length ds. js_get (ds ! i) ''msg'' = Normal (ms ! i))"
proof -
  from map_msg_total [OF assms(5)] obtain ms where ms: "map_msg ds = Normal ms"
    and len: "length ms = length ds"
    and nth: "\<forall>i<length ds. js_get (ds ! i) ''msg'' = Normal (ms ! i)" by blast
  from detail_msgs_array [OF assms(4)] ms have "detail_msgs (error res) = Normal (JArr ms)"
    by simp
  with assms(1-3) have "fetchApi raw m path options =
      Normal (JObj [(''error'', JObj [(''statusCode'', JNum 422),
                                      (''message'', JStr ''Validation error''),
                                      (''details'', JArr ms)])])"
    by (simp add: fetchApi_def fetchApi_try_def)
  with len nth show ?thesis by blast
qed

theorem fetchApi_validation_error_witness:
  "fetchApi (stub_client (Normal (reply False 422 Throw validation_body)))
       GET ''/api/v1/flags'' (JObj []) =
     Normal (JObj [(''error'', JObj [(''statusCode'', JNum 422),
                                     (''message'', JStr ''Validation error''),
                                     (''details'', JArr [JStr ''bad id''])])])"
proof -
  let ?res = "reply False 422 Throw validation_body"
  let ?d = "JObj [(''msg'', JStr ''bad id''), (''type'', JStr ''value_error''),
                  (''loc'', JArr [JStr ''query'', JStr ''id''])]"
  have "\<exists>ms. fetchApi (stub_client (Normal ?res)) GET ''/api/v1/flags'' (JObj []) =
                Normal (JObj [(''error'', JObj [(''statusCode'', JNum 422),
                                                (''message'', JStr ''Validation error''),
                                                (''details'', JArr ms)])]) \<and>
              length ms = length [?d] \<and>
              (\<forall>i<length [?d]. js_get ([?d] ! i) ''msg'' = Normal (ms ! i))"
    by (rule fetchApi_validation_error [where res = ?res])
      (simp_all add: stub_client_def reply_def validation_body_def)
  then obtain ms where r: "fetchApi (stub_client (Normal ?res)) GET ''/api/v1/flags'' (JObj []) =
                Normal (JObj [(''error'', JObj [(''statusCode'', JNum 422),
                                                (''message'', JStr ''Validation error''),
                                                (''details'', JArr ms)])])"
    and l: "length ms = 1" and e: "js_get ?d ''msg'' = Normal (ms ! 0)" by auto
  from l e have "ms = [JStr ''bad id'']" by (cases ms) auto
  with r show ?thesis by simp
qed

text \<open>
  C4, as the code has it. When the response is a failure with a status other than 422
  and its body parses as JSON, the dispatcher returns the error whose statusCode is the
  status of the response, whose message is "Error while requesting Nutripatrol API" and
  whose \<^verbatim>\<open>details\<close> is the parsed body.
\<close>

theorem fetchApi_upstream_error:
  assumes "methods raw m path options = Normal res"
    and "\<not> ok (response res)"
    and "status (response res) \<noteq> 422"
    and "json (response res) = Normal body"
  shows "fetchApi raw m path options =
           Normal (JObj [(''error'', JObj [(''statusCode'', JNum (status (response res))),
                                           (''message'', JStr ''Error while requesting Nutripatrol API''),
                                           (''details'', body)])])"
  using assms by (simp add: fetchApi_def fetchApi_try_def)

theorem fetchApi_upstream_error_witness:
  "fetchApi (stub_client (Normal (reply False 404 (Normal (JObj [(''detail'', JStr ''Not Found'')])) JUndefined)))
       DELETE ''/api/v1/flags/7'' (JObj []) =
     Normal (JObj [(''error'', JObj [(''statusCode'', JNum 404),
                                     (''message'', JStr ''Error while requesting Nutripatrol API''),
                                     (''details'', JObj [(''detail'', JStr ''Not Found'')])])])"
proof -
  let ?res = "reply False 404 (Normal (JObj [(''detail'', JStr ''Not Found'')])) JUndefined"
  have "fetchApi (stub_client (Normal ?res)) DELETE ''/api/v1/flags/7'' (JObj []) =
          Normal (JObj [(''error'', JObj [(''statusCode'', JNum (status (response ?res))),
                                          (''message'', JStr ''Error while requesting Nutripatrol API''),
                                          (''details'', JObj [(''detail'', JStr ''Not Found'')])])])"
    by (rule fetchApi_upstream_error) (simp_all add: stub_client_def reply_def)
  then show ?thesis by (simp add: reply_def)
qed

text \<open>
  C4, as stated for every failure response, fails: when a 503 answers with a body that
  is not JSON, \<^verbatim>\<open>res.response.json()\<close> rejects inside the \<^verbatim>\<open>try\<close> and the
  returned error has statusCode 500, not 503, the catch-all message and no
  \<^verbatim>\<open>details\<close>.
\<close>

theorem fetchApi_upstream_error_counterexample:
  "status (response (reply False 503 Throw JUndefined)) = 503 \<and>
   fetchApi (stub_client (Normal (reply False 503 Throw JUndefined)))
       POST ''/api/v1/flags'' (JObj []) =
     Normal (JObj [(''error'', JObj [(''statusCode'', JNum 500),
                                     (''message'', JStr ''An unexpected error occurred'')])]) \<and>
   js_get (JObj [(''statusCode'', JNum 500), (''message'', JStr ''An unexpected error occurred'')])
       ''statusCode'' \<noteq> Normal (JNum 503) \<and>
   js_get (JObj [(''statusCode'', JNum 500), (''message'', JStr ''An unexpected error occurred'')])
       ''message'' \<noteq> Normal (JStr ''Error while requesting Nutripatrol API'') \<and>
   js_in ''details''
       (JObj [(''statusCode'', JNum 500), (''message'', JStr ''An unexpected error occurred'')]) =
     Normal False"
  by (simp add: fetchApi_def fetchApi_try_def stub_client_def reply_def)

text \<open>
  C10. When the response is a failure with a status other than 422 and parsing its
  body throws, the dispatcher returns the catch-all
  \<^verbatim>\<open>{error: {statusCode: 500, message: "An unexpected error occurred"}}\<close>, which
  carries neither the status of the response nor its body.
\<close>

theorem fetchApi_upstream_error_unparseable:
  assumes "methods raw m path options = Normal res"
    and "\<not> ok (response res)"
    and "status (response res) \<noteq> 422"
    and "json (response res) = Throw"
  shows "fetchApi raw m path options =
           Normal (JObj [(''error'', JObj [(''statusCode'', JNum 500),
                                           (''message'', JStr ''An unexpected error occurred'')])])"
  using assms by (simp add: fetchApi_def fetchApi_try_def)

theorem fetchApi_upstream_error_unparseable_witness:
  "fetchApi (stub_client (Normal (reply False 502 Throw JUndefined))) GET ''/health'' (JObj []) =
     Normal (JObj [(''error'', JObj [(''statusCode'', JNum 500),
                                     (''message'', JStr ''An unexpected error occurred'')])])"
  by (rule fetchApi_upstream_error_unparseable [where res = "reply False 502 Throw JUndefined"])
    (simp_all add: stub_client_def reply_def)

section \<open>Success responses\<close>

text \<open>
  C6. When the response is a success and its body parses to a truthy value, the
  dispatcher returns that value itself.
\<close>

theorem fetchApi_success_roundtrip:
  assumes "methods raw m path options = Normal res"
    and "ok (response res)"
    and "json (response res) = Normal data"
    and "\<not> falsy data"
  shows "fetchApi raw m path options = Normal data"
  using assms by (simp add: fetchApi_def fetchApi_try_def)

theorem fetchApi_success_roundtrip_witness:
  "fetchApi (stub_client (Normal (reply True 200 (Normal flags_body) JUndefined)))
       GET ''/api/v1/flags'' (JObj []) = Normal flags_body"
  by (rule fetchApi_success_roundtrip [where res = "reply True 200 (Normal flags_body) JUndefined" and data = flags_body])
    (simp_all add: stub_client_def reply_def flags_body_def)

text \<open>
  C7. When the response is a success and its body parses to a falsy value, the
  dispatcher returns the error with statusCode 500 and message
  "Malformed API response", whatever the verb, the path and the options.
\<close>

theorem fetchApi_malformed_response:
  assumes "methods raw m path options = Normal res"
    and "ok (response res)"
    and "json (response res) = Normal data"
    and "falsy data"
  shows "fetchApi raw m path options =
           Normal (JObj [(''error'', JObj [(''statusCode'', JNum 500),
                                           (''message'', JStr ''Malformed API response'')])])"
  using assms by (simp add: fetchApi_def fetchApi_try_def)

theorem fetchApi_malformed_response_witness:
  "fetchApi (stub_client (Normal (reply True 204 (Normal (JStr [])) JUndefined)))
       PUT ''/api/v1/tickets/3'' (JObj [(''body'', JObj [])]) =
     Normal (JObj [(''error'', JObj [(''statusCode'', JNum 500),
                                     (''message'', JStr ''Malformed API response'')])])"
  by (rule fetchApi_malformed_response [where res = "reply True 204 (Normal (JStr [])) JUndefined" and data = "JStr []"])
    (simp_all add: stub_client_def reply_def)

text \<open>
  C2, as the code has it. In the malformed-response branch the returned value carries
  the outer \<^verbatim>\<open>error\<close> key, as every other error branch does, and conforms to the
  declared error type; its inner object has no \<^verbatim>\<open>details\<close>.
\<close>

theorem malformed_response_wrapped:
  assumes "methods raw m path options = Normal res"
    and "ok (response res)"
    and "json (response res) = Normal data"
    and "falsy data"
  shows "\<exists>v e. fetchApi raw m path options = Normal v \<and>
               js_in ''error'' v = Normal True \<and> SearchALiciousError v \<and>
               js_get v ''error'' = Normal e \<and> js_in ''details'' e = Normal False"
  using assms by (simp add: fetchApi_def fetchApi_try_def)

theorem malformed_response_wrapped_witness:
  "\<exists>v e. fetchApi (stub_client (Normal (reply True 200 (Normal (JNum 0)) JUndefined)))
              GET ''/api/v1/flags'' (JObj []) = Normal v \<and>
         js_in ''error'' v = Normal True \<and> SearchALiciousError v \<and>
         js_get v ''error'' = Normal e \<and> js_in ''details'' e = Normal False"
  by (rule malformed_response_wrapped [where res = "reply True 200 (Normal (JNum 0)) JUndefined" and data = "JNum 0"])
    (simp_all add: stub_client_def reply_def)

text \<open>
  C2, as stated, fails: for a success response whose body parses to \<^verbatim>\<open>null\<close> the
  returned value has the \<^verbatim>\<open>error\<close> key and conforms to the declared error type.
\<close>

theorem malformed_response_unwrapped_counterexample:
  "fetchApi (stub_client (Normal (reply True 200 (Normal JNull) JUndefined))) GET ''/health'' (JObj []) =
     Normal (JObj [(''error'', JObj [(''statusCode'', JNum 500),
                                     (''message'', JStr ''Malformed API response'')])]) \<and>
   js_in ''error'' (JObj [(''error'', JObj [(''statusCode'', JNum 500),
                                            (''message'', JStr ''Malformed API response'')])]) =
     Normal True \<and>
   SearchALiciousError (JObj [(''error'', JObj [(''statusCode'', JNum 500),
                                                (''message'', JStr ''Malformed API response'')])])"
  by (simp add: fetchApi_stub_ok)

section \<open>The accessors\<close>

text \<open>
  C8. When the dispatcher's result is an object, each accessor returns it unchanged if
  it has an \<^verbatim>\<open>error\<close> key; otherwise \<^verbatim>\<open>getFlags\<close> returns its \<^verbatim>\<open>flags\<close>
  property (\<^verbatim>\<open>undefined\<close> when there is none) and \<^verbatim>\<open>getApiHealth\<close> returns the
  object itself. So the body \<^verbatim>\<open>{flags: [{id: 1}]}\<close> yields \<^verbatim>\<open>[{id: 1}]\<close>.
\<close>

theorem accessors_narrow:
  "(fetchApi raw GET ''/api/v1/flags'' (JObj []) = Normal (JObj kvs) \<longrightarrow>
      getFlags raw =
        (if ''error'' \<in> set (map fst kvs) then Normal (JObj kvs)
         else Normal (case map_of kvs ''flags'' of None \<Rightarrow> JUndefined | Some fs \<Rightarrow> fs))) \<and>
   (fetchApi raw GET ''/health'' (JObj []) = Normal (JObj hs) \<longrightarrow>
      getApiHealth raw = Normal (JObj hs))"
  by (simp add: getFlags_def getApiHealth_def)

theorem accessors_narrow_witness:
  "getFlags (stub_client (Normal (reply True 200 (Normal flags_body) JUndefined))) =
     Normal (JArr [JObj [(''id'', JNum 1)]]) \<and>
   getApiHealth (stub_client (Normal (reply True 200 (Normal health_body) JUndefined))) =
     Normal health_body \<and>
   getFlags (stub_client Throw) =
     Normal (JObj [(''error'', JObj [(''statusCode'', JNum 500),
                                     (''message'', JStr ''An unexpected error occurred'')])]) \<and>
   getApiHealth (stub_client Throw) =
     Normal (JObj [(''error'', JObj [(''statusCode'', JNum 500),
                                     (''message'', JStr ''An unexpected error occurred'')])])"
proof -
  let ?f = "stub_client (Normal (reply True 200 (Normal flags_body) JUndefined))"
  let ?h = "stub_client (Normal (reply True 200 (Normal health_body) JUndefined))"
  let ?t = "stub_client Throw"
  let ?e = "[(''error'', JObj [(''statusCode'', JNum 500),
                               (''message'', JStr ''An unexpected error occurred'')])]"
  have "fetchApi ?f GET ''/api/v1/flags'' (JObj []) =
          Normal (JObj [(''flags'', JArr [JObj [(''id'', JNum 1)]])])"
    by (simp add: fetchApi_stub_ok flags_body_def)
  from accessors_narrow [THEN conjunct1, THEN mp, OF this]
  have a: "getFlags ?f = Normal (JArr [JObj [(''id'', JNum 1)]])" by simp
  have "fetchApi ?h GET ''/health'' (JObj []) = Normal health_body"
    by (simp add: fetchApi_stub_ok health_body_def)
  then have b: "getApiHealth ?h = Normal health_body"
    unfolding health_body_def by (rule accessors_narrow [THEN conjunct2, THEN mp])
  have t: "fetchApi ?t GET path (JObj []) = Normal (JObj ?e)" for path
    by (simp add: fetchApi_def fetchApi_try_def stub_client_def)
  from accessors_narrow [THEN conjunct1, THEN mp, OF t]
  have c: "getFlags ?t = Normal (JObj ?e)" by simp
  from t have d: "getApiHealth ?t = Normal (JObj ?e)"
    by (rule accessors_narrow [THEN conjunct2, THEN mp])
  from a b c d show ?thesis by blast
qed

text \<open>
  C9. When the flags route answers with a success whose body is an object with a
  top-level \<^verbatim>\<open>error\<close> property, \<^verbatim>\<open>getFlags\<close> returns that body unchanged, and
  not what reading its \<^verbatim>\<open>flags\<close> property gives.
\<close>

theorem getFlags_error_key_in_success_body:
  assumes "methods raw GET ''/api/v1/flags'' (JObj []) = Normal res"
    and "ok (response res)"
    and "json (response res) = Normal (JObj kvs)"
    and "''error'' \<in> set (map fst kvs)"
  shows "getFlags raw = Normal (JObj kvs) \<and> getFlags raw \<noteq> js_get (JObj kvs) ''flags''"
proof -
  from assms(1-3) have "fetchApi raw GET ''/api/v1/flags'' (JObj []) = Normal (JObj kvs)"
    by (simp add: fetchApi_def fetchApi_try_def)
  with assms(4) have "getFlags raw = Normal (JObj kvs)"
    by (simp add: getFlags_def)
  with js_get_not_self [of kvs "''flags''"] show ?thesis by simp
qed

theorem getFlags_error_key_in_success_body_witness:
  "getFlags (stub_client (Normal (reply True 200
       (Normal (JObj [(''error'', JStr ''none''), (''flags'', JArr [JObj [(''id'', JNum 1)]])]))
       JUndefined))) =
     Normal (JObj [(''error'', JStr ''none''), (''flags'', JArr [JObj [(''id'', JNum 1)]])])"
proof -
  let ?b = "[(''error'', JStr ''none''), (''flags'', JArr [JObj [(''id'', JNum 1)]])]"
  have "getFlags (stub_client (Normal (reply True 200 (Normal (JObj ?b)) JUndefined))) =
          Normal (JObj ?b) \<and>
        getFlags (stub_client (Normal (reply True 200 (Normal (JObj ?b)) JUndefined))) \<noteq>
          js_get (JObj ?b) ''flags''"
    by (rule getFlags_error_key_in_success_body
          [where res = "reply True 200 (Normal (JObj ?b)) JUndefined"])
      (simp_all add: stub_client_def reply_def)
  then show ?thesis by (rule conjunct1)
qed

section \<open>An exception that reaches the caller\<close>

text \<open>
  C1. The dispatcher itself never throws, but an accessor can: when the transport
  answers a success whose body parses to the primitive \<^verbatim>\<open>true\<close>, the guard
  \<^verbatim>\<open>!data\<close> lets the value through, the dispatcher returns it, and the test
  \<^verbatim>\<open>"error" in data\<close>, which stands outside the dispatcher's \<^verbatim>\<open>try\<close>, throws
  in both accessors.
\<close>

theorem accessors_throw_on_primitive_body:
  "fetchApi (stub_client (Normal (reply True 200 (Normal (JBool True)) JUndefined)))
       GET ''/health'' (JObj []) = Normal (JBool True) \<and>
   getApiHealth (stub_client (Normal (reply True 200 (Normal (JBool True)) JUndefined))) = Throw \<and>
   getFlags (stub_client (Normal (reply True 200 (Normal (JBool True)) JUndefined))) = Throw"
  by (simp add: getApiHealth_def getFlags_def fetchApi_stub_ok)

end
